theory Spec2Isabelle
  imports Complex_Main "HOL-Library.Word" "HOL-Library.Sublist"
begin

section \<open>VORTEX single-page site: the logic of \<^verbatim>\<open>src/App.tsx\<close>\<close>

text \<open>
  The page is a set of independent React components.  Each component's state is a
  handful of \<^verbatim>\<open>useState\<close> cells; an event handler reads the cells of the render it
  closes over and calls setters.  A handler is modelled as a function from the state it
  closes over (and from whatever the host hands it: a random number, a network outcome,
  the window geometry) to the state after its setters have run.

  JavaScript numbers that hold DOM geometry, prices and counters are finite; they are
  modelled as \<^typ>\<open>real\<close> (or \<^typ>\<open>int\<close> where the source only ever stores
  integers).  JavaScript strings are sequences of UTF-16 code units.
\<close>

subsection \<open>Scroll progress (\<^verbatim>\<open>clamp\<close>, \<^verbatim>\<open>App.handleScroll\<close>)\<close>

text \<open>\<^verbatim>\<open>const clamp = (v, a = 0, b = 1) => Math.max(a, Math.min(b, v));\<close>\<close>

definition clamp :: "real \<Rightarrow> real \<Rightarrow> real \<Rightarrow> real" where
  "clamp v a b = max a (min b v)"

text \<open>
  \<^verbatim>\<open>const total = document.documentElement.scrollHeight - window.innerHeight;
  const scrolled = total > 0 ? window.scrollY / total : 0;
  setProgress(clamp(scrolled, 0, 1));\<close>
  The function returns the value handed to \<^verbatim>\<open>setProgress\<close>.
\<close>

definition handleScroll :: "real \<Rightarrow> real \<Rightarrow> real \<Rightarrow> real" where
  "handleScroll scrollHeight innerHeight scrollY =
     (let total = scrollHeight - innerHeight;
          scrolled = (if total > 0 then scrollY / total else 0)
      in clamp scrolled 0 1)"

subsection \<open>Strings\<close>

text \<open>
  A JavaScript string is a sequence of 16-bit code units.  \<open>str\<close> writes an ASCII
  literal; characters outside ASCII are given by their code unit.
\<close>

type_synonym jschar = "16 word"
type_synonym jsstring = "jschar list"

definition str :: "string \<Rightarrow> jsstring" where
  "str s = map of_char s"

text \<open>
  The code units that ECMAScript calls WhiteSpace or LineTerminator.  Both
  \<^verbatim>\<open>String.prototype.trim\<close> and the regular-expression class \<^verbatim>\<open>\s\<close> (whose
  complement is \<^verbatim>\<open>\S\<close>) use exactly this set.
\<close>

definition isWhiteSpace :: "jschar \<Rightarrow> bool" where
  "isWhiteSpace c \<longleftrightarrow>
     c = 0x09 \<or> c = 0x0A \<or> c = 0x0B \<or> c = 0x0C \<or> c = 0x0D \<or> c = 0x20 \<or> c = 0xA0
     \<or> c = 0x1680 \<or> (0x2000 \<le> c \<and> c \<le> 0x200A) \<or> c = 0x2028 \<or> c = 0x2029
     \<or> c = 0x202F \<or> c = 0x205F \<or> c = 0x3000 \<or> c = 0xFEFF"

text \<open>\<^verbatim>\<open>s.trim()\<close>: white space removed at both ends.\<close>

definition trim :: "jsstring \<Rightarrow> jsstring" where
  "trim s = rev (dropWhile isWhiteSpace (rev (dropWhile isWhiteSpace s)))"

text \<open>
  \<^verbatim>\<open>s.includes(q)\<close>: is \<open>q\<close> found at some position of \<open>s\<close>?  \<open>startsWith\<close>
  compares at the current position, \<open>includes_str\<close> moves the position to the right.
\<close>

fun startsWith :: "jsstring \<Rightarrow> jsstring \<Rightarrow> bool" where
  "startsWith s [] = True"
| "startsWith [] (c # q) = False"
| "startsWith (d # s) (c # q) = (d = c \<and> startsWith s q)"

fun includes_str :: "jsstring \<Rightarrow> jsstring \<Rightarrow> bool" where
  "includes_str [] q = startsWith [] q"
| "includes_str (d # s) q = (startsWith (d # s) q \<or> includes_str s q)"

subsection \<open>The regular expression of \<^verbatim>\<open>validateEmail\<close>\<close>

text \<open>
  \<^verbatim>\<open>const validateEmail = (e: string) => /\S+@\S+\.\S+/.test(e);\<close>

  The pattern is a sequence of terms, each a single-character atom or an atom under the
  greedy quantifier \<^verbatim>\<open>+\<close>.  An atom is a literal code unit or the class \<^verbatim>\<open>\S\<close>.
\<close>

datatype atom = Lit jschar | NonSpace

datatype qterm = One atom | OneOrMore atom

type_synonym pattern = "qterm list"

fun matchAtom :: "atom \<Rightarrow> jschar \<Rightarrow> bool" where
  "matchAtom (Lit c) d = (d = c)"
| "matchAtom NonSpace d = (\<not> isWhiteSpace d)"

text \<open>
  \<open>matchHere p s\<close>: the pattern matches some prefix of \<open>s\<close>.  A quantified atom first
  tries to take one more character and falls back to the rest of the pattern, which is
  the backtracking order of the ECMAScript matcher.
\<close>

fun matchHere :: "pattern \<Rightarrow> jsstring \<Rightarrow> bool" where
  "matchHere [] s = True"
| "matchHere (t # p) [] = False"
| "matchHere (One a # p) (d # s) = (matchAtom a d \<and> matchHere p s)"
| "matchHere (OneOrMore a # p) (d # s) =
     (matchAtom a d \<and> (matchHere (OneOrMore a # p) s \<or> matchHere p s))"

text \<open>
  \<^verbatim>\<open>regex.test(s)\<close> for a pattern without flags: the match is tried at index 0, then
  at every later index up to the end of the string.
\<close>

fun test :: "pattern \<Rightarrow> jsstring \<Rightarrow> bool" where
  "test p [] = matchHere p []"
| "test p (d # s) = (matchHere p (d # s) \<or> test p s)"

definition emailPattern :: pattern where
  "emailPattern =
     [OneOrMore NonSpace, One (Lit 0x40), OneOrMore NonSpace, One (Lit 0x2E),
      OneOrMore NonSpace]"

definition validateEmail :: "jsstring \<Rightarrow> bool" where
  "validateEmail e = test emailPattern e"

text \<open>
  What the pattern says, in words: \<open>exact p w\<close> holds when the whole of \<open>w\<close> is
  one term after the other, a quantified atom standing for one or more characters of
  its class.  \<open>emailShaped e\<close> holds when \<open>e\<close> has, somewhere, non-space characters,
  an at sign, non-space characters, a dot and non-space characters.
\<close>

fun exact :: "pattern \<Rightarrow> jsstring \<Rightarrow> bool" where
  "exact [] w = (w = [])"
| "exact (One a # p) w = (\<exists>d w'. w = d # w' \<and> matchAtom a d \<and> exact p w')"
| "exact (OneOrMore a # p) w =
     (\<exists>u w'. w = u @ w' \<and> u \<noteq> [] \<and> (\<forall>d\<in>set u. matchAtom a d) \<and> exact p w')"

definition emailShaped :: "jsstring \<Rightarrow> bool" where
  "emailShaped e \<longleftrightarrow>
     (\<exists>pre a b c post.
        e = pre @ a @ [0x40] @ b @ [0x2E] @ c @ post
        \<and> a \<noteq> [] \<and> b \<noteq> [] \<and> c \<noteq> []
        \<and> (\<forall>d\<in>set (a @ b @ c). \<not> isWhiteSpace d))"

subsection \<open>Contact form (\<^verbatim>\<open>ContactForm\<close>)\<close>

text \<open>The \<^verbatim>\<open>useState\<close> cells of the component, with their initial values.\<close>

record form =
  name :: jsstring
  company :: jsstring
  email :: jsstring
  budget :: jsstring
  message :: jsstring
  maintenance :: bool
  loading :: bool
  success :: "jsstring option"
  error :: "jsstring option"
  hp :: jsstring

definition initialForm :: form where
  "initialForm =
     \<lparr>name = [], company = [], email = [], budget = str ''749'', message = [],
      maintenance = False, loading = False, success = None, error = None, hp = []\<rparr>"

text \<open>The messages the handler shows (code units 0xE9 = e acute, 0x2014 = em dash).\<close>

definition msgNomRequis :: jsstring where
  "msgNomRequis = str ''Nom requis.''"

definition msgEmailInvalide :: jsstring where
  "msgEmailInvalide = str ''Email invalide.''"

definition msgBot :: jsstring where
  "msgBot = str ''Bot d'' @ [0xE9] @ str ''tect'' @ [0xE9] @ str ''.''"

definition msgErreurEnvoi :: jsstring where
  "msgErreurEnvoi =
     str ''Erreur d'' @ [0x27] @ str ''envoi '' @ [0x2014] @ str '' veuillez r'' @ [0xE9]
     @ str ''essayer plus tard.''"

definition msgErreurReseau :: jsstring where
  "msgErreurReseau =
     str ''Erreur de r'' @ [0xE9] @ str ''seau '' @ [0x2014] @ str '' v'' @ [0xE9]
     @ str ''rifiez votre connexion.''"

definition msgMerci :: jsstring where
  "msgMerci =
     str ''Merci ! Votre demande a '' @ [0xE9] @ str ''t'' @ [0xE9] @ str '' envoy''
     @ [0xE9] @ str ''e. Nous vous contactons sous 24h.''"

text \<open>
  The object handed to \<^verbatim>\<open>JSON.stringify\<close> and the request handed to
  \<^verbatim>\<open>fetch\<close>.  The body of the request is kept as the payload object; the option
  \<^verbatim>\<open>method\<close> is the field \<open>http_method\<close>.
\<close>

record payload =
  api_key :: jsstring
  subject :: jsstring
  p_name :: jsstring
  p_email :: jsstring
  p_company :: jsstring
  p_message :: jsstring

record request =
  url :: jsstring
  http_method :: jsstring
  headers :: "(jsstring \<times> jsstring) list"
  body :: payload

definition mkPayload :: "form \<Rightarrow> payload" where
  "mkPayload s =
     \<lparr>api_key = str ''WEB3FORMS_API_KEY_PLACEHOLDER'',
      subject = str ''Nouveau lead '' @ [0x2014] @ str '' VORTEX (''
                @ (if company s \<noteq> [] then company s else str ''sans entreprise'')
                @ str '')'',
      p_name = name s,
      p_email = email s,
      p_company = company s,
      p_message = message s @ [0x0A, 0x0A] @ str ''Maintenance: ''
                  @ (if maintenance s then str ''Oui'' else str ''Non'')
                  @ [0x0A] @ str ''Budget pr'' @ [0xE9] @ str ''sum'' @ [0xE9] @ str '': ''
                  @ budget s @ [0x20AC]\<rparr>"

definition mkRequest :: "form \<Rightarrow> request" where
  "mkRequest s =
     \<lparr>url = str ''https://api.web3forms.com/submit'',
      http_method = str ''POST'',
      headers = [(str ''Content-Type'', str ''application/json'')],
      body = mkPayload s\<rparr>"

text \<open>
  What the network hands back.  A promise either rejects with a thrown value or
  fulfils; the response carries \<^verbatim>\<open>ok\<close> and the outcome of \<^verbatim>\<open>res.text()\<close>,
  itself a promise.
\<close>

datatype thrown = Thrown jsstring

record response =
  ok :: bool
  res_text :: "thrown + jsstring"

text \<open>What the handler does to the outside world, in order.\<close>

datatype effect = Fetch request | ConsoleError "jsstring list"

text \<open>
  The \<^verbatim>\<open>catch\<close> and \<^verbatim>\<open>finally\<close> blocks of \<^verbatim>\<open>handleSubmit\<close>, run when the
  \<^verbatim>\<open>try\<close> block throws \<open>err\<close>.
\<close>

definition onThrow :: "thrown \<Rightarrow> form \<Rightarrow> form \<times> effect list" where
  "onThrow err s =
     (case err of Thrown m \<Rightarrow>
        (s\<lparr>error := Some msgErreurReseau, loading := False\<rparr>, [ConsoleError [m]]))"

text \<open>
  \<^verbatim>\<open>handleSubmit\<close>.  \<open>net\<close> is what \<^verbatim>\<open>fetch\<close> does with the request, should the
  handler get that far.  The result is the state once the handler has finished and the
  effects it had.
\<close>

definition handleSubmit :: "(request \<Rightarrow> thrown + response) \<Rightarrow> form \<Rightarrow> form \<times> effect list" where
  "handleSubmit net s =
     (let s0 = s\<lparr>error := None, success := None\<rparr> in
      if trim (name s) = [] then (s0\<lparr>error := Some msgNomRequis\<rparr>, [])
      else if \<not> validateEmail (email s) then (s0\<lparr>error := Some msgEmailInvalide\<rparr>, [])
      else if hp s \<noteq> [] then (s0\<lparr>error := Some msgBot\<rparr>, [])
      else
        let s1 = s0\<lparr>loading := True\<rparr>;
            req = mkRequest s
        in case net req of
             Inl err \<Rightarrow> (let (s2, log) = onThrow err s1 in (s2, Fetch req # log))
           | Inr res \<Rightarrow>
               if \<not> ok res then
                 (case res_text res of
                    Inl err \<Rightarrow> (let (s2, log) = onThrow err s1 in (s2, Fetch req # log))
                  | Inr t \<Rightarrow>
                      (s1\<lparr>error := Some msgErreurEnvoi, loading := False\<rparr>,
                       [Fetch req, ConsoleError [str ''Web3Forms error'', t]]))
               else
                 (s1\<lparr>success := Some msgMerci, name := [], company := [], email := [],
                     message := [], maintenance := False, budget := str ''749'',
                     loading := False\<rparr>,
                  [Fetch req]))"

text \<open>The network calls among the effects.\<close>

fun fetches :: "effect list \<Rightarrow> request list" where
  "fetches [] = []"
| "fetches (Fetch r # es) = r # fetches es"
| "fetches (ConsoleError m # es) = fetches es"

text \<open>A filled-in form and three behaviours of the network, for examples.\<close>

definition sampleForm :: form where
  "sampleForm =
     initialForm\<lparr>name := str ''Ann'', company := str ''ACME'', email := str ''a@b.c'',
                 budget := str ''1500'', message := str ''Hi'', maintenance := True\<rparr>"

definition respondsOk :: "request \<Rightarrow> thrown + response" where
  "respondsOk req = Inr \<lparr>ok = True, res_text = Inr (str ''{}'')\<rparr>"

definition respondsNotOk :: "request \<Rightarrow> thrown + response" where
  "respondsNotOk req = Inr \<lparr>ok = False, res_text = Inr (str ''denied'')\<rparr>"

definition networkDown :: "request \<Rightarrow> thrown + response" where
  "networkDown req = Inl (Thrown (str ''Failed to fetch''))"

subsection \<open>Real-estate filter (\<^verbatim>\<open>RealEstateMiniSite\<close>)\<close>

record house =
  house_id :: nat
  title :: jsstring
  price :: int
  beds :: int
  img :: "jsstring option"

text \<open>The \<^verbatim>\<open>filters\<close> cell: \<^verbatim>\<open>useState({ beds: 2, maxPrice: 500000 })\<close>.\<close>

record filters =
  beds :: int
  maxPrice :: int

definition initialFilters :: filters where
  "initialFilters = \<lparr>beds = 2, maxPrice = 500000\<rparr>"

text \<open>The sample list (0x2014 = em dash, 0xE8 = e grave).\<close>

definition sampleHouses :: "house list" where
  "sampleHouses =
     [\<lparr>house_id = 1,
       title = str ''Loft lumineux '' @ [0x2014] @ str '' 3 pi'' @ [0xE8] @ str ''ces'',
       price = 420000, beds = 2, img = None\<rparr>,
      \<lparr>house_id = 2,
       title = str ''Maison familiale '' @ [0x2014] @ str '' Jardin'',
       price = 680000, beds = 4, img = None\<rparr>,
      \<lparr>house_id = 3,
       title = str ''Studio centre-ville'',
       price = 210000, beds = 0, img = None\<rparr>]"

text \<open>
  \<^verbatim>\<open>const results = sampleHouses.filter((h) => h.price <= filters.maxPrice
    && h.beds >= filters.beds
    && h.title.toLowerCase().includes(query.toLowerCase()));\<close>

  \<^verbatim>\<open>toLowerCase\<close> is the host's Unicode case mapping; it is the parameter
  \<open>toLowerCase\<close> of the model.
\<close>

definition results :: "(jsstring \<Rightarrow> jsstring) \<Rightarrow> jsstring \<Rightarrow> filters \<Rightarrow> house list" where
  "results toLowerCase query fs =
     filter (\<lambda>h. price h \<le> maxPrice fs \<and> house.beds h \<ge> filters.beds fs
                 \<and> includes_str (toLowerCase (title h)) (toLowerCase query))
       sampleHouses"

text \<open>
  The list area of the panel: one card per result, then
  \<^verbatim>\<open>{results.length === 0 && <div>...</div>}\<close>.
\<close>

datatype row = Card house | Notice jsstring

definition msgAucunResultat :: jsstring where
  "msgAucunResultat =
     str ''Aucun r'' @ [0xE9] @ str ''sultat '' @ [0x2014] @ str '' '' @ [0xE9]
     @ str ''largissez votre recherche.''"

definition renderResults :: "house list \<Rightarrow> row list" where
  "renderResults rs =
     map Card rs @ (if length rs = 0 then [Notice msgAucunResultat] else [])"

text \<open>
  The filter as the specification words it: the title contains the query as a
  substring once case is ignored.
\<close>

definition containsIgnoringCase :: "(jsstring \<Rightarrow> jsstring) \<Rightarrow> jsstring \<Rightarrow> jsstring \<Rightarrow> bool" where
  "containsIgnoringCase toLowerCase t q \<longleftrightarrow>
     (\<exists>pre post. toLowerCase t = pre @ toLowerCase q @ post)"

text \<open>
  A case mapping for examples: ASCII capitals to small letters, every other code unit
  kept.  It agrees with \<^verbatim>\<open>toLowerCase\<close> on strings whose capitals are ASCII.
\<close>

definition asciiLower :: "jsstring \<Rightarrow> jsstring" where
  "asciiLower s = map (\<lambda>c. if 0x41 \<le> c \<and> c \<le> 0x5A then c + 0x20 else c) s"

subsection \<open>Particle background (\<^verbatim>\<open>CanvasParticles\<close>)\<close>

text \<open>
  \<^verbatim>\<open>Math.random()\<close> is a source of numbers in \<open>[0, 1)\<close>.  The model threads the
  sequence of its future results: \<open>g 0\<close> is the next one.
\<close>

type_synonym rng = "nat \<Rightarrow> real"

text \<open>\<^verbatim>\<open>function rand(min, max) { return Math.random() * (max - min) + min; }\<close>\<close>

definition rand :: "real \<Rightarrow> real \<Rightarrow> rng \<Rightarrow> real \<times> rng" where
  "rand lo hi g = (g 0 * (hi - lo) + lo, \<lambda>n. g (Suc n))"

record particle =
  x :: real
  y :: real
  vx :: real
  vy :: real
  r :: real
  hue :: real
  life :: real
  maxLife :: real
  alpha :: real

text \<open>
  \<^verbatim>\<open>reset()\<close> overwrites every field, so the model builds the particle anew.
  \<open>width\<close> and \<open>height\<close> are the variables of the enclosing effect.
\<close>

definition reset :: "real \<Rightarrow> real \<Rightarrow> rng \<Rightarrow> particle \<times> rng" where
  "reset width height g0 =
     (let (x', g1) = rand 0 width g0;
          (y', g2) = rand 0 height g1;
          (vx', g3) = rand (- 0.12) 0.12 g2;
          (vy', g4) = rand (- 0.08) 0.08 g3;
          (r', g5) = rand 0.8 3.2 g4;
          (h', g6) = rand (- 20) 20 g5;
          (maxLife', g7) = rand 120 600 g6;
          (alpha', g8) = rand 0.05 0.35 g7
      in (\<lparr>x = x', y = y', vx = vx', vy = vy', r = r', hue = 180 + h', life = 0,
           maxLife = maxLife', alpha = alpha'\<rparr>, g8))"

text \<open>
  \<^verbatim>\<open>step() {
    this.x += this.vx; this.y += this.vy; this.life++;
    if (this.life > this.maxLife) this.reset();
    if (this.x < -10 || this.x > width + 10 || this.y < -10 || this.y > height + 10)
      this.reset();
  }\<close>
\<close>

definition step :: "real \<Rightarrow> real \<Rightarrow> particle \<times> rng \<Rightarrow> particle \<times> rng" where
  "step width height pg =
     (let (p, g) = pg;
          p1 = p\<lparr>x := x p + vx p\<rparr>;
          p2 = p1\<lparr>y := y p1 + vy p1\<rparr>;
          p3 = p2\<lparr>life := life p2 + 1\<rparr>;
          (p4, g4) = (if life p3 > maxLife p3 then reset width height g else (p3, g))
      in if x p4 < - 10 \<or> x p4 > width + 10 \<or> y p4 < - 10 \<or> y p4 > height + 10
         then reset width height g4
         else (p4, g4))"

text \<open>
  The specification's wording of the second respawn condition: the position is outside
  the viewport, the rectangle from \<open>(0, 0)\<close> to \<open>(width, height)\<close>.
\<close>

definition exitsViewport :: "real \<Rightarrow> real \<Rightarrow> particle \<Rightarrow> bool" where
  "exitsViewport width height p \<longleftrightarrow>
     x p < 0 \<or> x p > width \<or> y p < 0 \<or> y p > height"

text \<open>A particle and a random source for examples.\<close>

definition sampleParticle :: particle where
  "sampleParticle =
     \<lparr>x = 0, y = 50, vx = - 0.1, vy = 0.05, r = 1, hue = 180, life = 0, maxLife = 120,
      alpha = 0.1\<rparr>"

definition halves :: rng where
  "halves n = 1 / 2"

text \<open>\<^verbatim>\<open>Math.round\<close>: the nearest integer, a tie going up.\<close>

definition Math_round :: "real \<Rightarrow> int" where
  "Math_round v = \<lfloor>v + 1 / 2\<rfloor>"

text \<open>
  The state of the effect: the canvas size, the variables \<open>width\<close> and \<open>height\<close>,
  the particle array and the random source.
\<close>

record canvasState =
  canvas_width :: real
  canvas_height :: real
  width :: real
  height :: real
  particles :: "particle list"
  random :: rng

text \<open>
  \<^verbatim>\<open>for (let i = 0; i < count; i++) particles.push(new Particle());\<close>
  with the array and the random source as accumulators.
\<close>

function spawn :: "int \<Rightarrow> int \<Rightarrow> real \<Rightarrow> real \<Rightarrow> particle list \<times> rng \<Rightarrow> particle list \<times> rng" where
  "spawn i count w h acc =
     (if i < count
      then (let (ps, g) = acc; (p, g') = reset w h g in spawn (i + 1) count w h (ps @ [p], g'))
      else acc)"
  by pat_completeness auto
termination
  by (relation "measure (\<lambda>(i, count, w, h, acc). nat (count - i))") auto

declare spawn.simps [simp del]

text \<open>
  The body of the effect up to the first frame:
  \<^verbatim>\<open>let width = (canvas.width = window.innerWidth);
  let height = (canvas.height = window.innerHeight);
  const particleCount = Math.round((width * height) / 45000);
  const particles = [];
  for (let i = 0; i < particleCount; i++) particles.push(new Particle());\<close>
\<close>

definition mount :: "real \<Rightarrow> real \<Rightarrow> rng \<Rightarrow> canvasState" where
  "mount innerWidth innerHeight g =
     (let width' = innerWidth;
          height' = innerHeight;
          particleCount = Math_round ((width' * height') / 45000);
          (ps, g') = spawn 0 particleCount width' height' ([], g)
      in \<lparr>canvas_width = width', canvas_height = height', width = width',
          height = height', particles = ps, random = g'\<rparr>)"

text \<open>
  \<^verbatim>\<open>const onResize = () => {
    width = canvas.width = window.innerWidth;
    height = canvas.height = window.innerHeight;
    particles.length = 0;
    const newCount = Math.round((width * height) / 45000);
    for (let i = 0; i < newCount; i++) particles.push(new Particle());
  };\<close>
\<close>

definition onResize :: "real \<Rightarrow> real \<Rightarrow> canvasState \<Rightarrow> canvasState" where
  "onResize innerWidth innerHeight st =
     (let st1 = st\<lparr>canvas_width := innerWidth, width := innerWidth\<rparr>;
          st2 = st1\<lparr>canvas_height := innerHeight, height := innerHeight\<rparr>;
          st3 = st2\<lparr>particles := []\<rparr>;
          newCount = Math_round ((width st3 * height st3) / 45000);
          (ps, g') = spawn 0 newCount (width st3) (height st3) (particles st3, random st3)
      in st3\<lparr>particles := ps, random := g'\<rparr>)"

subsection \<open>Limited-slots counter (\<^verbatim>\<open>CTABox\<close>)\<close>

text \<open>
  \<^verbatim>\<open>const [slots, setSlots] = useState(6);\<close> and, every 4000 ms,
  \<^verbatim>\<open>setSlots((s) => (s > 2 ? s - (Math.random() > 0.8 ? 1 : 0) : s));\<close>.
  The argument \<open>d\<close> is the value \<^verbatim>\<open>Math.random()\<close> returns at that tick.
\<close>

definition initialSlots :: int where
  "initialSlots = 6"

definition tick :: "real \<Rightarrow> int \<Rightarrow> int" where
  "tick d s = (if s > 2 then s - (if d > 0.8 then 1 else 0) else s)"

text \<open>The counter after a sequence of ticks, one random draw per tick, oldest first.\<close>

fun slotsAfter :: "real list \<Rightarrow> int \<Rightarrow> int" where
  "slotsAfter [] s = s"
| "slotsAfter (d # ds) s = slotsAfter ds (tick d s)"

section \<open>Properties\<close>

subsection \<open>Strings and the e-mail pattern\<close>

text \<open>A trimmed string is empty exactly when the string holds white space only.\<close>

lemma dropWhile_all_Nil:
  "(\<forall>c\<in>set (dropWhile P s). P c) \<longleftrightarrow> dropWhile P s = []"
proof
  assume every: "\<forall>c\<in>set (dropWhile P s). P c"
  show "dropWhile P s = []"
  proof (rule ccontr)
    assume rest: "dropWhile P s \<noteq> []"
    then have "\<not> P (hd (dropWhile P s))" by (rule hd_dropWhile)
    moreover from rest have "hd (dropWhile P s) \<in> set (dropWhile P s)" by (rule hd_in_set)
    ultimately show False using every by blast
  qed
qed (auto dest: set_dropWhileD)

lemma trim_empty_iff: "trim s = [] \<longleftrightarrow> (\<forall>c\<in>set s. isWhiteSpace c)"
  using dropWhile_all_Nil [of isWhiteSpace s]
  by (simp add: trim_def dropWhile_eq_Nil_conv)

text \<open>The scan of \<open>includes_str\<close> finds exactly the substrings.\<close>

lemma startsWith_prefix: "startsWith s q \<longleftrightarrow> prefix q s"
  by (induction s q rule: startsWith.induct) auto

lemma includes_str_sublist: "includes_str s q \<longleftrightarrow> sublist q s"
  by (induction s) (auto simp: startsWith_prefix sublist_Cons_right)

text \<open>
  The backtracking matcher is complete: it succeeds at a position exactly when some
  prefix there is an instance of the pattern.
\<close>

lemma matchHere_exact: "matchHere p s \<longleftrightarrow> (\<exists>w v. s = w @ v \<and> exact p w)"
proof (induction p s rule: matchHere.induct)
  case (1 s)
  show ?case by simp
next
  case (2 t p)
  show ?case by (cases t) simp_all
next
  case (3 a p d s)
  show ?case
  proof
    assume "matchHere (One a # p) (d # s)"
    then have ma: "matchAtom a d" and "matchHere p s" by simp_all
    with 3 obtain w v where "s = w @ v" "exact p w" by auto
    with ma have "d # s = (d # w) @ v \<and> exact (One a # p) (d # w)" by simp
    then show "\<exists>w v. d # s = w @ v \<and> exact (One a # p) w" by blast
  next
    assume "\<exists>w v. d # s = w @ v \<and> exact (One a # p) w"
    then obtain w v where split: "d # s = w @ v" and inst: "exact (One a # p) w" by blast
    from inst obtain d' w' where w: "w = d' # w'" and ma: "matchAtom a d'"
      and inst': "exact p w'"
      by auto
    from split w have "d' = d" "s = w' @ v" by simp_all
    with ma inst' 3 show "matchHere (One a # p) (d # s)" by auto
  qed
next
  case (4 a p d s)
  show ?case
  proof
    assume "matchHere (OneOrMore a # p) (d # s)"
    then have ma: "matchAtom a d"
      and alt: "matchHere (OneOrMore a # p) s \<or> matchHere p s" by simp_all
    from alt show "\<exists>w v. d # s = w @ v \<and> exact (OneOrMore a # p) w"
    proof
      assume "matchHere (OneOrMore a # p) s"
      with 4 obtain w v where s: "s = w @ v" and inst: "exact (OneOrMore a # p) w" by auto
      from inst obtain u w' where w: "w = u @ w'"
        and u: "u \<noteq> []" "\<forall>d\<in>set u. matchAtom a d"
        and inst': "exact p w'" by auto
      have "exact (OneOrMore a # p) ((d # u) @ w')"
        unfolding exact.simps using ma u inst'
        by (intro exI[of _ "d # u"] exI[of _ w']) simp
      moreover have "d # s = ((d # u) @ w') @ v" using s w by simp
      ultimately show ?thesis by blast
    next
      assume "matchHere p s"
      with 4 obtain w v where s: "s = w @ v" and inst: "exact p w" by auto
      have "exact (OneOrMore a # p) ([d] @ w)"
        unfolding exact.simps using ma inst by (intro exI[of _ "[d]"] exI[of _ w]) simp
      moreover have "d # s = ([d] @ w) @ v" using s by simp
      ultimately show ?thesis by blast
    qed
  next
    assume "\<exists>w v. d # s = w @ v \<and> exact (OneOrMore a # p) w"
    then obtain w v where split: "d # s = w @ v" and inst: "exact (OneOrMore a # p) w"
      by blast
    from inst obtain u w' where w: "w = u @ w'"
      and u: "u \<noteq> []" "\<forall>d\<in>set u. matchAtom a d"
      and inst': "exact p w'" by auto
    from u obtain d' u' where u': "u = d' # u'" by (cases u) auto
    with split w have dd: "d' = d" and s: "s = u' @ w' @ v" by simp_all
    from u u' dd have ma: "matchAtom a d" and more: "\<forall>d\<in>set u'. matchAtom a d"
      by simp_all
    show "matchHere (OneOrMore a # p) (d # s)"
    proof (cases "u' = []")
      case True
      with s inst' have "\<exists>w v. s = w @ v \<and> exact p w" by auto
      with 4 ma show ?thesis by simp
    next
      case False
      have "exact (OneOrMore a # p) (u' @ w')"
        unfolding exact.simps using False more inst' by blast
      moreover have "s = (u' @ w') @ v" using s by simp
      ultimately have "\<exists>w v. s = w @ v \<and> exact (OneOrMore a # p) w" by blast
      with 4 ma show ?thesis by simp
    qed
  qed
qed

lemma test_exact: "test p s \<longleftrightarrow> (\<exists>u w v. s = u @ w @ v \<and> exact p w)"
proof (induction s)
  case Nil
  show ?case by (simp add: matchHere_exact)
next
  case (Cons d s)
  show ?case
  proof
    assume "test p (d # s)"
    then have "matchHere p (d # s) \<or> test p s" by simp
    then show "\<exists>u w v. d # s = u @ w @ v \<and> exact p w"
    proof
      assume "matchHere p (d # s)"
      then obtain w v where "d # s = [] @ w @ v \<and> exact p w"
        by (auto simp: matchHere_exact)
      then show ?thesis by blast
    next
      assume "test p s"
      with Cons obtain u w v where "s = u @ w @ v" "exact p w" by auto
      then have "d # s = (d # u) @ w @ v \<and> exact p w" by simp
      then show ?thesis by blast
    qed
  next
    assume "\<exists>u w v. d # s = u @ w @ v \<and> exact p w"
    then obtain u w v where split: "d # s = u @ w @ v" and inst: "exact p w" by blast
    show "test p (d # s)"
    proof (cases u)
      case Nil
      with split inst have "matchHere p (d # s)" by (auto simp: matchHere_exact)
      then show ?thesis by simp
    next
      case (Cons d' u')
      with split have "s = u' @ w @ v" by simp
      with inst Cons.IH have "test p s" by blast
      then show ?thesis by simp
    qed
  qed
qed

lemma exact_emailPattern:
  "exact emailPattern w \<longleftrightarrow>
     (\<exists>a b c. w = a @ [0x40] @ b @ [0x2E] @ c \<and> a \<noteq> [] \<and> b \<noteq> [] \<and> c \<noteq> []
        \<and> (\<forall>d\<in>set (a @ b @ c). \<not> isWhiteSpace d))"
proof
  assume "exact emailPattern w"
  then obtain a b c where "w = a @ 0x40 # b @ 0x2E # c"
    and "a \<noteq> []" "\<forall>d\<in>set a. \<not> isWhiteSpace d"
    and "b \<noteq> []" "\<forall>d\<in>set b. \<not> isWhiteSpace d"
    and "c \<noteq> []" "\<forall>d\<in>set c. \<not> isWhiteSpace d"
    unfolding emailPattern_def by auto
  then show "\<exists>a b c. w = a @ [0x40] @ b @ [0x2E] @ c \<and> a \<noteq> [] \<and> b \<noteq> [] \<and> c \<noteq> []
        \<and> (\<forall>d\<in>set (a @ b @ c). \<not> isWhiteSpace d)"
    by (intro exI[of _ a] exI[of _ b] exI[of _ c]) (simp add: ball_Un)
next
  assume "\<exists>a b c. w = a @ [0x40] @ b @ [0x2E] @ c \<and> a \<noteq> [] \<and> b \<noteq> [] \<and> c \<noteq> []
        \<and> (\<forall>d\<in>set (a @ b @ c). \<not> isWhiteSpace d)"
  then obtain a b c where w: "w = a @ [0x40] @ b @ [0x2E] @ c"
    and ne: "a \<noteq> []" "b \<noteq> []" "c \<noteq> []"
    and ns: "\<forall>d\<in>set a. \<not> isWhiteSpace d" "\<forall>d\<in>set b. \<not> isWhiteSpace d"
            "\<forall>d\<in>set c. \<not> isWhiteSpace d"
    by (auto simp: ball_Un)
  have i4: "exact [OneOrMore NonSpace] c" using ne ns by simp
  have i3: "exact [One (Lit 0x2E), OneOrMore NonSpace] (0x2E # c)" using i4 by simp
  have i2: "exact [OneOrMore NonSpace, One (Lit 0x2E), OneOrMore NonSpace] (b @ 0x2E # c)"
    by (subst exact.simps, intro exI[of _ b] exI[of _ "0x2E # c"]) (use ne ns i3 in simp)
  have i1: "exact [One (Lit 0x40), OneOrMore NonSpace, One (Lit 0x2E), OneOrMore NonSpace]
              (0x40 # b @ 0x2E # c)"
    by (subst exact.simps) (use i2 in simp)
  have "exact emailPattern (a @ 0x40 # b @ 0x2E # c)"
    unfolding emailPattern_def
    by (subst exact.simps, intro exI[of _ a] exI[of _ "0x40 # b @ 0x2E # c"])
       (use ne ns i1 in simp)
  with w show "exact emailPattern w" by simp
qed

text \<open>\<^verbatim>\<open>validateEmail\<close> accepts exactly the strings of the shape the pattern words.\<close>

lemma validateEmail_emailShaped: "validateEmail e \<longleftrightarrow> emailShaped e"
proof
  assume "validateEmail e"
  then obtain u w v where e: "e = u @ w @ v" and inst: "exact emailPattern w"
    by (auto simp: validateEmail_def test_exact)
  from inst obtain a b c where "w = a @ [0x40] @ b @ [0x2E] @ c"
    "a \<noteq> []" "b \<noteq> []" "c \<noteq> []" "\<forall>d\<in>set (a @ b @ c). \<not> isWhiteSpace d"
    unfolding exact_emailPattern by blast
  with e show "emailShaped e"
    unfolding emailShaped_def
    by (intro exI[of _ u] exI[of _ a] exI[of _ b] exI[of _ c] exI[of _ v]) simp
next
  assume "emailShaped e"
  then obtain pre a b c post where e: "e = pre @ a @ [0x40] @ b @ [0x2E] @ c @ post"
    and parts: "a \<noteq> []" "b \<noteq> []" "c \<noteq> []" "\<forall>d\<in>set (a @ b @ c). \<not> isWhiteSpace d"
    unfolding emailShaped_def by blast
  from parts have "exact emailPattern (a @ [0x40] @ b @ [0x2E] @ c)"
    unfolding exact_emailPattern by blast
  moreover have "e = pre @ (a @ [0x40] @ b @ [0x2E] @ c) @ post" using e by simp
  ultimately show "validateEmail e"
    unfolding validateEmail_def test_exact by blast
qed

text \<open>An address with no at sign, or with no dot, is not of that shape.\<close>

lemma no_at_not_emailShaped: "0x40 \<notin> set e \<Longrightarrow> \<not> emailShaped e"
  by (auto simp: emailShaped_def)

lemma no_dot_not_emailShaped: "0x2E \<notin> set e \<Longrightarrow> \<not> emailShaped e"
  by (auto simp: emailShaped_def)

text \<open>Evaluations used by the examples below.\<close>

lemma trim_Ann: "trim (str ''Ann'') \<noteq> []"
  by (simp add: trim_def str_def isWhiteSpace_def)

lemma validateEmail_good: "validateEmail (str ''a@b.c'')"
  by (simp add: validateEmail_def emailPattern_def str_def isWhiteSpace_def)

lemma validateEmail_bad: "\<not> validateEmail (str ''a.bc'')"
  by (simp add: validateEmail_def emailPattern_def str_def isWhiteSpace_def)

subsection \<open>Contact form\<close>

text \<open>The handler on each of its paths.\<close>

lemma handleSubmit_name_missing:
  "trim (name s) = [] \<Longrightarrow>
   handleSubmit net s = (s\<lparr>error := Some msgNomRequis, success := None\<rparr>, [])"
  by (simp add: handleSubmit_def)

lemma handleSubmit_email_invalid:
  "trim (name s) \<noteq> [] \<Longrightarrow> \<not> validateEmail (email s) \<Longrightarrow>
   handleSubmit net s = (s\<lparr>error := Some msgEmailInvalide, success := None\<rparr>, [])"
  by (simp add: handleSubmit_def)

lemma handleSubmit_bot:
  "trim (name s) \<noteq> [] \<Longrightarrow> validateEmail (email s) \<Longrightarrow> hp s \<noteq> [] \<Longrightarrow>
   handleSubmit net s = (s\<lparr>error := Some msgBot, success := None\<rparr>, [])"
  by (simp add: handleSubmit_def)

lemma handleSubmit_ok:
  "trim (name s) \<noteq> [] \<Longrightarrow> validateEmail (email s) \<Longrightarrow> hp s = [] \<Longrightarrow>
   net (mkRequest s) = Inr res \<Longrightarrow> ok res \<Longrightarrow>
   handleSubmit net s = (initialForm\<lparr>success := Some msgMerci\<rparr>, [Fetch (mkRequest s)])"
  by (simp add: handleSubmit_def Let_def initialForm_def)

lemma handleSubmit_fetch_throws:
  "trim (name s) \<noteq> [] \<Longrightarrow> validateEmail (email s) \<Longrightarrow> hp s = [] \<Longrightarrow>
   net (mkRequest s) = Inl (Thrown m) \<Longrightarrow>
   handleSubmit net s =
     (s\<lparr>error := Some msgErreurReseau, success := None, loading := False\<rparr>,
      [Fetch (mkRequest s), ConsoleError [m]])"
  by (simp add: handleSubmit_def Let_def onThrow_def)

lemma handleSubmit_not_ok:
  "trim (name s) \<noteq> [] \<Longrightarrow> validateEmail (email s) \<Longrightarrow> hp s = [] \<Longrightarrow>
   net (mkRequest s) = Inr res \<Longrightarrow> \<not> ok res \<Longrightarrow> res_text res = Inr t \<Longrightarrow>
   handleSubmit net s =
     (s\<lparr>error := Some msgErreurEnvoi, success := None, loading := False\<rparr>,
      [Fetch (mkRequest s), ConsoleError [str ''Web3Forms error'', t]])"
  by (simp add: handleSubmit_def Let_def)

lemma handleSubmit_not_ok_text_throws:
  "trim (name s) \<noteq> [] \<Longrightarrow> validateEmail (email s) \<Longrightarrow> hp s = [] \<Longrightarrow>
   net (mkRequest s) = Inr res \<Longrightarrow> \<not> ok res \<Longrightarrow> res_text res = Inl (Thrown m) \<Longrightarrow>
   handleSubmit net s =
     (s\<lparr>error := Some msgErreurReseau, success := None, loading := False\<rparr>,
      [Fetch (mkRequest s), ConsoleError [m]])"
  by (simp add: handleSubmit_def Let_def onThrow_def)

text \<open>
  Claim C1.  When the name field is empty or holds white space only, the submit handler
  issues no network call (it has no effect on the outside at all) and sets the error to
  the message "Nom requis.".
\<close>

theorem C1_empty_name_rejected:
  assumes "\<forall>c\<in>set (name s). isWhiteSpace c"
  shows "fetches (snd (handleSubmit net s)) = []
         \<and> snd (handleSubmit net s) = []
         \<and> error (fst (handleSubmit net s)) = Some (str ''Nom requis.'')"
proof -
  from assms have "trim (name s) = []" by (simp add: trim_empty_iff)
  then show ?thesis by (simp add: handleSubmit_name_missing msgNomRequis_def)
qed

theorem C1_witness:
  "list_all isWhiteSpace (name (sampleForm\<lparr>name := str ''  ''\<rparr>))
   \<and> snd (handleSubmit respondsOk (sampleForm\<lparr>name := str ''  ''\<rparr>)) = []
   \<and> error (fst (handleSubmit respondsOk (sampleForm\<lparr>name := str ''  ''\<rparr>)))
       = Some (str ''Nom requis.'')"
proof -
  have blank: "\<forall>c\<in>set (name (sampleForm\<lparr>name := str ''  ''\<rparr>)). isWhiteSpace c"
    by (simp add: str_def isWhiteSpace_def)
  show ?thesis
    using blank C1_empty_name_rejected [OF blank, of respondsOk]
    by (simp add: list_all_iff)
qed

text \<open>
  Claim C3.  When the name passes the handler's check (trimmed, it is not empty) and
  the e-mail field holds nowhere the pattern non-space characters, at sign, non-space
  characters, dot, non-space characters, the submit handler sets the error to
  "Email invalide." and issues no network call.  An e-mail without an at sign, or
  without a dot, is such a field.
\<close>

theorem C3_malformed_email_rejected:
  assumes "trim (name s) \<noteq> []" and "\<not> emailShaped (email s)"
  shows "fetches (snd (handleSubmit net s)) = []
         \<and> snd (handleSubmit net s) = []
         \<and> error (fst (handleSubmit net s)) = Some (str ''Email invalide.'')"
proof -
  from assms(2) have "\<not> validateEmail (email s)" by (simp add: validateEmail_emailShaped)
  with assms(1) show ?thesis
    by (simp add: handleSubmit_email_invalid msgEmailInvalide_def)
qed

theorem C3_witness:
  "trim (name (sampleForm\<lparr>email := str ''a.bc''\<rparr>)) \<noteq> []
   \<and> \<not> emailShaped (email (sampleForm\<lparr>email := str ''a.bc''\<rparr>))
   \<and> snd (handleSubmit respondsOk (sampleForm\<lparr>email := str ''a.bc''\<rparr>)) = []
   \<and> error (fst (handleSubmit respondsOk (sampleForm\<lparr>email := str ''a.bc''\<rparr>)))
       = Some (str ''Email invalide.'')"
proof -
  have named: "trim (name (sampleForm\<lparr>email := str ''a.bc''\<rparr>)) \<noteq> []"
    using trim_Ann by (simp add: sampleForm_def)
  have shapeless: "\<not> emailShaped (email (sampleForm\<lparr>email := str ''a.bc''\<rparr>))"
    using validateEmail_bad by (simp add: validateEmail_emailShaped)
  show ?thesis
    using named shapeless C3_malformed_email_rejected [OF named shapeless, of respondsOk]
    by simp
qed

text \<open>
  Claim C4.  When the honeypot field is not empty, the submit handler issues no network
  call, whatever the other fields hold; it ends with an error message, which is
  the bot message \<open>msgBot\<close> when the name and the e-mail are valid.
\<close>

theorem C4_honeypot_blocks:
  assumes "hp s \<noteq> []"
  shows "fetches (snd (handleSubmit net s)) = []
         \<and> snd (handleSubmit net s) = []
         \<and> (\<exists>m. error (fst (handleSubmit net s)) = Some m)
         \<and> (trim (name s) \<noteq> [] \<and> validateEmail (email s)
              \<longrightarrow> error (fst (handleSubmit net s)) = Some msgBot)"
  using assms by (simp add: handleSubmit_def Let_def)

theorem C4_witness:
  "hp (sampleForm\<lparr>hp := str ''x''\<rparr>) \<noteq> []
   \<and> trim (name (sampleForm\<lparr>hp := str ''x''\<rparr>)) \<noteq> []
   \<and> validateEmail (email (sampleForm\<lparr>hp := str ''x''\<rparr>))
   \<and> snd (handleSubmit respondsOk (sampleForm\<lparr>hp := str ''x''\<rparr>)) = []
   \<and> error (fst (handleSubmit respondsOk (sampleForm\<lparr>hp := str ''x''\<rparr>))) = Some msgBot"
proof -
  have filled: "hp (sampleForm\<lparr>hp := str ''x''\<rparr>) \<noteq> []" by (simp add: str_def)
  have named: "trim (name (sampleForm\<lparr>hp := str ''x''\<rparr>)) \<noteq> []"
    using trim_Ann by (simp add: sampleForm_def)
  have valid: "validateEmail (email (sampleForm\<lparr>hp := str ''x''\<rparr>))"
    using validateEmail_good by (simp add: sampleForm_def)
  show ?thesis
    using filled named valid C4_honeypot_blocks [OF filled, of respondsOk] by simp
qed

text \<open>
  Claim C5.  When the name is not blank, the e-mail has the shape of the pattern, the
  honeypot is empty and the POST comes back with an OK response, the handler leaves
  every field at its initial value (name, company, e-mail and message empty,
  maintenance off, budget "749", honeypot empty, no error, not loading) and sets the
  success message; it has made exactly the one network call.
\<close>

theorem C5_success_resets_form:
  assumes "trim (name s) \<noteq> []" and "emailShaped (email s)" and "hp s = []"
    and "net (mkRequest s) = Inr res" and "ok res"
  shows "fst (handleSubmit net s) = initialForm\<lparr>success := Some msgMerci\<rparr>
         \<and> snd (handleSubmit net s) = [Fetch (mkRequest s)]"
proof -
  from assms(2) have "validateEmail (email s)" by (simp add: validateEmail_emailShaped)
  with assms(1,3,4,5) show ?thesis by (simp add: handleSubmit_ok)
qed

theorem C5_witness:
  "trim (name sampleForm) \<noteq> [] \<and> emailShaped (email sampleForm) \<and> hp sampleForm = []
   \<and> respondsOk (mkRequest sampleForm) = Inr \<lparr>ok = True, res_text = Inr (str ''{}'')\<rparr>
   \<and> fst (handleSubmit respondsOk sampleForm)
       = \<lparr>name = [], company = [], email = [], budget = str ''749'', message = [],
          maintenance = False, loading = False, success = Some msgMerci, error = None,
          hp = []\<rparr>"
proof -
  have named: "trim (name sampleForm) \<noteq> []"
    using trim_Ann by (simp add: sampleForm_def)
  have shaped: "emailShaped (email sampleForm)"
    using validateEmail_good by (simp add: sampleForm_def validateEmail_emailShaped)
  have clean: "hp sampleForm = []" by (simp add: sampleForm_def initialForm_def)
  have reply: "respondsOk (mkRequest sampleForm) = Inr \<lparr>ok = True, res_text = Inr (str ''{}'')\<rparr>"
    by (simp add: respondsOk_def)
  have fine: "ok \<lparr>ok = True, res_text = Inr (str ''{}'')\<rparr>" by simp
  show ?thesis
    using named shaped clean reply
      C5_success_resets_form [where net = respondsOk, OF named shaped clean reply fine]
    by (simp add: initialForm_def)
qed

text \<open>
  Claim C7.  When the local validations pass and the POST comes back with a response
  that is not OK, or the network call throws, the handler ends with one of its two
  generic error messages ("Erreur d'envoi ... veuillez reessayer plus tard." for a
  response that is not OK, "Erreur de reseau ... verifiez votre connexion." when the
  call or the reading of the response throws), leaves name, company, e-mail, message,
  maintenance, budget and honeypot as they were, sets no success message, and has made
  exactly one network call: there is no retry.
\<close>

theorem C7_failure_keeps_fields:
  assumes "trim (name s) \<noteq> []" and "emailShaped (email s)" and "hp s = []"
    and "(\<exists>err. net (mkRequest s) = Inl err)
         \<or> (\<exists>res. net (mkRequest s) = Inr res \<and> \<not> ok res)"
  shows "(error (fst (handleSubmit net s)) = Some msgErreurEnvoi
          \<or> error (fst (handleSubmit net s)) = Some msgErreurReseau)
         \<and> success (fst (handleSubmit net s)) = None
         \<and> loading (fst (handleSubmit net s)) = False
         \<and> name (fst (handleSubmit net s)) = name s
         \<and> company (fst (handleSubmit net s)) = company s
         \<and> email (fst (handleSubmit net s)) = email s
         \<and> message (fst (handleSubmit net s)) = message s
         \<and> maintenance (fst (handleSubmit net s)) = maintenance s
         \<and> budget (fst (handleSubmit net s)) = budget s
         \<and> hp (fst (handleSubmit net s)) = hp s
         \<and> fetches (snd (handleSubmit net s)) = [mkRequest s]"
proof -
  from assms(2) have valid: "validateEmail (email s)"
    by (simp add: validateEmail_emailShaped)
  from assms(4) show ?thesis
  proof
    assume "\<exists>err. net (mkRequest s) = Inl err"
    then obtain m where "net (mkRequest s) = Inl (Thrown m)" by (metis thrown.exhaust)
    then show ?thesis
      by (simp add: handleSubmit_fetch_throws [where net = net, OF assms(1) valid assms(3)])
  next
    assume "\<exists>res. net (mkRequest s) = Inr res \<and> \<not> ok res"
    then obtain res where reply: "net (mkRequest s) = Inr res" and bad: "\<not> ok res" by blast
    show ?thesis
    proof (cases "res_text res")
      case (Inl err)
      then obtain m where "res_text res = Inl (Thrown m)" by (cases err) simp
      then show ?thesis
        by (simp add: handleSubmit_not_ok_text_throws [where net = net, OF assms(1) valid assms(3) reply bad])
    next
      case (Inr t)
      then show ?thesis
        by (simp add: handleSubmit_not_ok [where net = net, OF assms(1) valid assms(3) reply bad])
    qed
  qed
qed

theorem C7_witness:
  "trim (name sampleForm) \<noteq> [] \<and> emailShaped (email sampleForm) \<and> hp sampleForm = []
   \<and> error (fst (handleSubmit respondsNotOk sampleForm)) = Some msgErreurEnvoi
   \<and> error (fst (handleSubmit networkDown sampleForm)) = Some msgErreurReseau
   \<and> name (fst (handleSubmit networkDown sampleForm)) = str ''Ann''
   \<and> fetches (snd (handleSubmit networkDown sampleForm)) = [mkRequest sampleForm]"
proof -
  have named: "trim (name sampleForm) \<noteq> []"
    using trim_Ann by (simp add: sampleForm_def)
  have valid: "validateEmail (email sampleForm)"
    using validateEmail_good by (simp add: sampleForm_def)
  then have shaped: "emailShaped (email sampleForm)"
    by (simp add: validateEmail_emailShaped)
  have clean: "hp sampleForm = []" by (simp add: sampleForm_def initialForm_def)
  have down: "(\<exists>err. networkDown (mkRequest sampleForm) = Inl err)
         \<or> (\<exists>res. networkDown (mkRequest sampleForm) = Inr res \<and> \<not> ok res)"
    by (simp add: networkDown_def)
  have env: "error (fst (handleSubmit respondsNotOk sampleForm)) = Some msgErreurEnvoi"
    using named valid clean by (simp add: handleSubmit_def Let_def respondsNotOk_def)
  have res: "error (fst (handleSubmit networkDown sampleForm)) = Some msgErreurReseau"
    using named valid clean
    by (simp add: handleSubmit_def Let_def networkDown_def onThrow_def)
  have nm: "name sampleForm = str ''Ann''" by (simp add: sampleForm_def)
  show ?thesis
    using named shaped clean env res nm
      C7_failure_keeps_fields [where net = networkDown, OF named shaped clean down]
    by simp
qed

subsection \<open>Real-estate filter\<close>

lemma includes_str_containsIgnoringCase:
  "includes_str (lc t) (lc q) \<longleftrightarrow> containsIgnoringCase lc t q"
  by (simp add: includes_str_sublist sublist_def containsIgnoringCase_def)

text \<open>
  Claim C2.  For every query, minimum number of bedrooms and maximum price, the filter
  over the three sample listings returns, in the order of the list, exactly the
  listings whose price is at most the maximum, whose bedroom count is at least the
  minimum and whose title contains the query as a substring once both are lower-cased.
  When no listing is left, the panel shows the no-results notice (and only then).
\<close>

theorem C2_filter_exact:
  "results lc q fs =
     filter (\<lambda>h. price h \<le> maxPrice fs \<and> filters.beds fs \<le> house.beds h
                 \<and> containsIgnoringCase lc (title h) q) sampleHouses
   \<and> set (results lc q fs) =
       {h \<in> set sampleHouses. price h \<le> maxPrice fs \<and> filters.beds fs \<le> house.beds h
                 \<and> containsIgnoringCase lc (title h) q}
   \<and> length sampleHouses = 3
   \<and> (results lc q fs = []
        \<longrightarrow> renderResults (results lc q fs) = [Notice msgAucunResultat])
   \<and> (results lc q fs \<noteq> []
        \<longrightarrow> renderResults (results lc q fs) = map Card (results lc q fs))"
proof -
  have same: "results lc q fs =
     filter (\<lambda>h. price h \<le> maxPrice fs \<and> filters.beds fs \<le> house.beds h
                 \<and> containsIgnoringCase lc (title h) q) sampleHouses"
    by (simp add: results_def includes_str_containsIgnoringCase)
  have members: "set (results lc q fs) =
       {h \<in> set sampleHouses. price h \<le> maxPrice fs \<and> filters.beds fs \<le> house.beds h
                 \<and> containsIgnoringCase lc (title h) q}"
    unfolding same by auto
  have three: "length sampleHouses = 3" by (simp add: sampleHouses_def)
  have none: "results lc q fs = []
        \<longrightarrow> renderResults (results lc q fs) = [Notice msgAucunResultat]"
    by (simp add: renderResults_def)
  have some: "results lc q fs \<noteq> []
        \<longrightarrow> renderResults (results lc q fs) = map Card (results lc q fs)"
    by (simp add: renderResults_def)
  from same members three none some show ?thesis by blast
qed

theorem C2_witness:
  "map house_id (results asciiLower (str ''LoFT'') initialFilters) = [1]
   \<and> results asciiLower (str ''zz'') initialFilters = []
   \<and> renderResults (results asciiLower (str ''zz'') initialFilters)
       = [Notice msgAucunResultat]
   \<and> map house_id (results asciiLower [] \<lparr>beds = 0, maxPrice = 700000\<rparr>) = [1, 2, 3]"
proof -
  have loft: "map house_id (results asciiLower (str ''LoFT'') initialFilters) = [1]"
    by (simp add: results_def sampleHouses_def initialFilters_def asciiLower_def str_def)
  have zz: "results asciiLower (str ''zz'') initialFilters = []"
    by (simp add: results_def sampleHouses_def initialFilters_def asciiLower_def str_def)
  have every: "map house_id (results asciiLower [] \<lparr>beds = 0, maxPrice = 700000\<rparr>) = [1, 2, 3]"
    by (simp add: results_def sampleHouses_def asciiLower_def str_def)
  show ?thesis
    using loft zz every C2_filter_exact [of asciiLower "str ''zz''" initialFilters]
    by simp
qed

subsection \<open>Scroll progress\<close>

text \<open>
  Claim C6.  For every scroll height, viewport height and scroll offset the progress
  lies between 0 and 1.  It is 0 at scroll offset 0 and whenever the scrollable height
  (scroll height minus viewport height) is not positive; otherwise it is the scroll
  offset divided by the scrollable height, clamped to the interval from 0 to 1, so that
  an offset before the top gives 0 and an offset past the bottom gives 1.
\<close>

theorem C6_progress_in_unit_interval:
  "0 \<le> handleScroll sh ih sy \<and> handleScroll sh ih sy \<le> 1
   \<and> handleScroll sh ih 0 = 0
   \<and> (sh - ih \<le> 0 \<longrightarrow> handleScroll sh ih sy = 0)
   \<and> (sh - ih > 0 \<longrightarrow> handleScroll sh ih sy = max 0 (min 1 (sy / (sh - ih))))
   \<and> (sh - ih > 0 \<and> sy \<le> 0 \<longrightarrow> handleScroll sh ih sy = 0)
   \<and> (sh - ih > 0 \<and> sy \<ge> sh - ih \<longrightarrow> handleScroll sh ih sy = 1)"
proof -
  have bounds: "0 \<le> handleScroll sh ih sy \<and> handleScroll sh ih sy \<le> 1"
    by (simp add: handleScroll_def clamp_def Let_def)
  have top: "handleScroll sh ih 0 = 0"
    by (simp add: handleScroll_def clamp_def Let_def)
  have short: "sh - ih \<le> 0 \<longrightarrow> handleScroll sh ih sy = 0"
    by (simp add: handleScroll_def clamp_def Let_def)
  have ratio: "sh - ih > 0 \<longrightarrow> handleScroll sh ih sy = max 0 (min 1 (sy / (sh - ih)))"
    by (simp add: handleScroll_def clamp_def Let_def)
  have before: "sh - ih > 0 \<and> sy \<le> 0 \<longrightarrow> handleScroll sh ih sy = 0"
  proof
    assume over: "sh - ih > 0 \<and> sy \<le> 0"
    then have "sy / (sh - ih) \<le> 0" by (simp add: divide_le_0_iff)
    with over show "handleScroll sh ih sy = 0"
      by (simp add: handleScroll_def clamp_def Let_def)
  qed
  have past: "sh - ih > 0 \<and> sy \<ge> sh - ih \<longrightarrow> handleScroll sh ih sy = 1"
  proof
    assume over: "sh - ih > 0 \<and> sy \<ge> sh - ih"
    then have "1 \<le> sy / (sh - ih)" by (simp add: le_divide_eq)
    with over show "handleScroll sh ih sy = 1"
      by (simp add: handleScroll_def clamp_def Let_def)
  qed
  from bounds top short ratio before past show ?thesis by blast
qed

theorem C6_witness:
  "handleScroll 3000 1000 500 = 1 / 4
   \<and> handleScroll 3000 1000 (- 40) = 0
   \<and> handleScroll 3000 1000 2100 = 1
   \<and> handleScroll 800 1000 120 = 0"
  using C6_progress_in_unit_interval [of 3000 1000 500]
        C6_progress_in_unit_interval [of 3000 1000 "- 40"]
        C6_progress_in_unit_interval [of 3000 1000 2100]
        C6_progress_in_unit_interval [of 800 1000 120]
  by simp

subsection \<open>Particle background\<close>

text \<open>A fresh particle, field by field; it uses eight random numbers.\<close>

lemma reset_eq:
  "reset w h g =
     (\<lparr>x = g 0 * w, y = g 1 * h, vx = g 2 * 0.24 - 0.12, vy = g 3 * 0.16 - 0.08,
       r = g 4 * 2.4 + 0.8, hue = 180 + (g 5 * 40 - 20), life = 0,
       maxLife = g 6 * 480 + 120, alpha = g 7 * 0.3 + 0.05\<rparr>,
      \<lambda>n. g (n + 8))"
  by (simp add: reset_def rand_def eval_nat_numeral)

text \<open>A fresh particle lies in the viewport, so the second test of \<open>step\<close> keeps it.\<close>

lemma reset_inside:
  assumes "\<forall>n. 0 \<le> g n \<and> g n < 1" and "0 \<le> w" and "0 \<le> h"
  shows "\<not> (x (fst (reset w h g)) < - 10 \<or> x (fst (reset w h g)) > w + 10
            \<or> y (fst (reset w h g)) < - 10 \<or> y (fst (reset w h g)) > h + 10)"
proof -
  from assms(1) have g0: "0 \<le> g 0" "g 0 \<le> 1" and g1: "0 \<le> g 1" "g 1 \<le> 1"
    by (simp_all add: less_imp_le)
  have "0 \<le> g 0 * w" using g0 assms(2) by simp
  moreover have "g 0 * w \<le> w" using g0 assms(2) by (simp add: mult_left_le_one_le)
  moreover have "0 \<le> g 1 * h" using g1 assms(3) by simp
  moreover have "g 1 * h \<le> h" using g1 assms(3) by (simp add: mult_left_le_one_le)
  ultimately show ?thesis by (simp add: reset_eq)
qed

text \<open>
  Claim C8, with the margin the code allows.  Let \<^verbatim>\<open>Math.random\<close> range over
  \<open>[0, 1)\<close> and the viewport have non-negative width and height.  A step advances the
  position by the velocity and increments the life counter; the particle is then
  respawned (reset to a fresh random state) exactly when the incremented life counter
  exceeds the maximum lifetime or the advanced position is more than 10 pixels outside
  the viewport (\<open>x < -10\<close>, \<open>x > width + 10\<close>, \<open>y < -10\<close> or \<open>y > height + 10\<close>).
  Otherwise the result is the particle at the advanced position with the incremented
  life counter: velocity, radius and alpha are unchanged and no random number is used.
\<close>

theorem C8_step_respawn_with_margin:
  assumes "\<forall>n. 0 \<le> g n \<and> g n < 1" and "0 \<le> w" and "0 \<le> h"
  shows "step w h (p, g) =
           (if life p + 1 > maxLife p
               \<or> x p + vx p < - 10 \<or> x p + vx p > w + 10
               \<or> y p + vy p < - 10 \<or> y p + vy p > h + 10
            then reset w h g
            else (p\<lparr>x := x p + vx p, y := y p + vy p, life := life p + 1\<rparr>, g))
         \<and> (\<not> (life p + 1 > maxLife p
               \<or> x p + vx p < - 10 \<or> x p + vx p > w + 10
               \<or> y p + vy p < - 10 \<or> y p + vy p > h + 10)
             \<longrightarrow> vx (fst (step w h (p, g))) = vx p \<and> vy (fst (step w h (p, g))) = vy p
                 \<and> r (fst (step w h (p, g))) = r p
                 \<and> alpha (fst (step w h (p, g))) = alpha p)"
proof (cases "life p + 1 > maxLife p")
  case True
  obtain q g' where fresh: "reset w h g = (q, g')" by (cases "reset w h g")
  from reset_inside [OF assms] fresh
  have "\<not> (x q < - 10 \<or> x q > w + 10 \<or> y q < - 10 \<or> y q > h + 10)" by simp
  with True fresh show ?thesis by (simp add: step_def)
next
  case False
  then show ?thesis by (simp add: step_def)
qed

theorem C8_witness:
  "(\<forall>n. 0 \<le> halves n \<and> halves n < 1)
   \<and> step 100 100 (sampleParticle, halves)
       = (sampleParticle\<lparr>x := - 0.1, y := 50.05, life := 1\<rparr>, halves)
   \<and> step 100 100 (sampleParticle\<lparr>x := - 9.95\<rparr>, halves) = reset 100 100 halves
   \<and> step 100 100 (sampleParticle\<lparr>life := 120\<rparr>, halves) = reset 100 100 halves"
proof -
  have unit: "\<forall>n. 0 \<le> halves n \<and> halves n < 1" by (simp add: halves_def)
  show ?thesis
    using unit
      C8_step_respawn_with_margin [OF unit, of 100 100 sampleParticle]
      C8_step_respawn_with_margin [OF unit, of 100 100 "sampleParticle\<lparr>x := - 9.95\<rparr>"]
      C8_step_respawn_with_margin [OF unit, of 100 100 "sampleParticle\<lparr>life := 120\<rparr>"]
    by (simp add: sampleParticle_def)
qed

text \<open>
  Without the margin the statement fails.  In a viewport of 100 by 100 the sample
  particle moves from \<open>x = 0\<close> to \<open>x = -0.1\<close>: it has left the viewport, its life
  counter is far from the maximum, and the step keeps it instead of respawning it.
\<close>

theorem C8_counterexample:
  "exitsViewport 100 100
     (sampleParticle\<lparr>x := x sampleParticle + vx sampleParticle,
                     y := y sampleParticle + vy sampleParticle\<rparr>)
   \<and> step 100 100 (sampleParticle, halves)
       = (sampleParticle\<lparr>x := x sampleParticle + vx sampleParticle,
                         y := y sampleParticle + vy sampleParticle,
                         life := life sampleParticle + 1\<rparr>, halves)
   \<and> step 100 100 (sampleParticle, halves) \<noteq> reset 100 100 halves"
  by (simp add: exitsViewport_def step_def sampleParticle_def reset_eq halves_def)

text \<open>The seeding loop pushes one particle for each index from \<open>i\<close> below \<open>n\<close>.\<close>

lemma spawn_length:
  "length (fst (spawn i n w h acc)) = length (fst acc) + nat (n - i)"
proof (induction i n w h acc rule: spawn.induct)
  case (1 i n w h acc)
  show ?case
  proof (cases "i < n")
    case True
    obtain ps g where acc: "acc = (ps, g)" by (cases acc)
    obtain p g' where fresh: "reset w h g = (p, g')" by (cases "reset w h g")
    have "length (fst (spawn (i + 1) n w h (ps @ [p], g')))
            = length (fst (ps @ [p], g')) + nat (n - (i + 1))"
      using "1.IH" [OF True refl acc [symmetric] refl fresh [symmetric]] .
    with True acc fresh show ?thesis
      by (subst spawn.simps) (simp add: nat_diff_distrib')
  next
    case False
    then show ?thesis by (subst spawn.simps) simp
  qed
qed

lemma Math_round_round: "Math_round v = round v"
  by (simp add: Math_round_def round_def)

text \<open>
  Claim C9.  On mount the canvas takes the size of the window and the number of
  particles seeded is \<open>round (width * height / 45000)\<close>.  A resize sets the canvas and
  the variables \<open>width\<close> and \<open>height\<close> to the new size and replaces the particle array
  by one seeded from scratch, as on mount, with the count computed by the same formula
  from the new size; nothing of the old array survives.
\<close>

theorem C9_particle_count:
  "length (particles (mount iw ih g)) = nat (round (iw * ih / 45000))
   \<and> canvas_width (mount iw ih g) = iw \<and> canvas_height (mount iw ih g) = ih
   \<and> length (particles (onResize iw' ih' st)) = nat (round (iw' * ih' / 45000))
   \<and> canvas_width (onResize iw' ih' st) = iw' \<and> canvas_height (onResize iw' ih' st) = ih'
   \<and> width (onResize iw' ih' st) = iw' \<and> height (onResize iw' ih' st) = ih'
   \<and> particles (onResize iw' ih' st) = particles (mount iw' ih' (random st))
   \<and> onResize iw' ih' (st\<lparr>particles := ps\<rparr>) = onResize iw' ih' st"
proof -
  have seeded: "length (particles (mount iw ih g)) = nat (round (iw * ih / 45000))"
    using spawn_length [of 0 "Math_round (iw * ih / 45000)" iw ih "([], g)"]
    by (simp add: mount_def Let_def split_def Math_round_round)
  have sized: "canvas_width (mount iw ih g) = iw \<and> canvas_height (mount iw ih g) = ih"
    by (simp add: mount_def Let_def split_def)
  have reseeded: "length (particles (onResize iw' ih' st)) = nat (round (iw' * ih' / 45000))"
    using spawn_length [of 0 "Math_round (iw' * ih' / 45000)" iw' ih' "([], random st)"]
    by (simp add: onResize_def Let_def split_def Math_round_round)
  have resized: "canvas_width (onResize iw' ih' st) = iw'
      \<and> canvas_height (onResize iw' ih' st) = ih'
      \<and> width (onResize iw' ih' st) = iw' \<and> height (onResize iw' ih' st) = ih'"
    by (simp add: onResize_def Let_def split_def)
  have same: "particles (onResize iw' ih' st) = particles (mount iw' ih' (random st))"
    by (simp add: onResize_def mount_def Let_def split_def)
  have scratch: "onResize iw' ih' (st\<lparr>particles := ps\<rparr>) = onResize iw' ih' st"
    by (simp add: onResize_def Let_def split_def)
  from seeded sized reseeded resized same scratch show ?thesis by blast
qed

theorem C9_witness:
  "length (particles (mount 300 300 halves)) = 2
   \<and> map x (particles (mount 300 300 halves)) = [150, 150]
   \<and> length (particles (onResize 1920 1080 (mount 300 300 halves))) = 46
   \<and> length (particles (onResize 100 100 (mount 300 300 halves))) = 0"
proof -
  have xs: "map x (particles (mount 300 300 halves)) = [150, 150]"
    by (simp add: mount_def Math_round_def spawn.simps reset_eq halves_def)
  have "length (particles (mount 300 300 halves)) = nat (round (300 * 300 / (45000::real)))"
    using C9_particle_count [of 300 300 halves 1920 1080 "mount 300 300 halves" "[]"]
    by blast
  then have small: "length (particles (mount 300 300 halves)) = 2"
    by (simp add: round_def)
  have "length (particles (onResize 1920 1080 (mount 300 300 halves)))
          = nat (round (1920 * 1080 / (45000::real)))"
    using C9_particle_count [of 300 300 halves 1920 1080 "mount 300 300 halves" "[]"]
    by blast
  then have large: "length (particles (onResize 1920 1080 (mount 300 300 halves))) = 46"
    by (simp add: round_def)
  have "length (particles (onResize 100 100 (mount 300 300 halves)))
          = nat (round (100 * 100 / (45000::real)))"
    using C9_particle_count [of 300 300 halves 100 100 "mount 300 300 halves" "[]"]
    by blast
  then have none: "length (particles (onResize 100 100 (mount 300 300 halves))) = 0"
    by (simp add: round_def)
  from small xs large none show ?thesis by blast
qed

subsection \<open>Limited-slots counter\<close>

lemma tick_le: "tick d s \<le> s"
  by (simp add: tick_def)

lemma tick_drop_at_most_one: "s - tick d s \<le> 1"
  by (simp add: tick_def)

lemma tick_keeps_floor: "2 \<le> s \<Longrightarrow> 2 \<le> tick d s"
  by (simp add: tick_def)

lemma slotsAfter_le: "slotsAfter ds s \<le> s"
proof (induction ds arbitrary: s)
  case Nil
  show ?case by simp
next
  case (Cons d ds)
  have "slotsAfter ds (tick d s) \<le> tick d s" by (rule Cons.IH)
  also have "tick d s \<le> s" by (rule tick_le)
  finally show ?case by simp
qed

lemma slotsAfter_floor: "2 \<le> s \<Longrightarrow> 2 \<le> slotsAfter ds s"
  by (induction ds arbitrary: s) (simp_all add: tick_keeps_floor)

lemma slotsAfter_snoc: "slotsAfter (ds @ [d]) s = tick d (slotsAfter ds s)"
  by (induction ds arbitrary: s) simp_all

text \<open>
  Claim C10.  The counter starts at 6.  Whatever the random draws of the ticks are, a tick
  never raises the counter and lowers it by at most 1 (so the sequence of displayed
  values is non-increasing), and the value after any number of ticks lies between 2
  and 6.
\<close>

theorem C10_slots_between_2_and_6:
  "initialSlots = 6
   \<and> slotsAfter [] initialSlots = 6
   \<and> slotsAfter (ds @ [d]) initialSlots \<le> slotsAfter ds initialSlots
   \<and> slotsAfter ds initialSlots - slotsAfter (ds @ [d]) initialSlots \<le> 1
   \<and> 2 \<le> slotsAfter ds initialSlots
   \<and> slotsAfter ds initialSlots \<le> 6"
proof -
  have start: "initialSlots = 6" by (simp add: initialSlots_def)
  have mono: "slotsAfter (ds @ [d]) initialSlots \<le> slotsAfter ds initialSlots"
    by (simp add: slotsAfter_snoc tick_le)
  have drop: "slotsAfter ds initialSlots - slotsAfter (ds @ [d]) initialSlots \<le> 1"
    by (simp add: slotsAfter_snoc tick_drop_at_most_one)
  have lo: "2 \<le> slotsAfter ds initialSlots"
    by (rule slotsAfter_floor) (simp add: start)
  have hi: "slotsAfter ds initialSlots \<le> 6"
    using slotsAfter_le [of ds initialSlots] by (simp add: start)
  from start mono drop lo hi show ?thesis by simp
qed

theorem C10_slots_witness:
  "slotsAfter [0.9, 0.1, 0.95] initialSlots = 4
   \<and> slotsAfter ([0.9, 0.1, 0.95] @ [0.85]) initialSlots = 3
   \<and> slotsAfter [0.9, 0.9, 0.9, 0.9, 0.9, 0.9] initialSlots = 2"
  using C10_slots_between_2_and_6 [of "[0.9, 0.1, 0.95]" "0.85"]
  by (simp add: initialSlots_def tick_def)

end
